theory Spec2Isabelle
  imports Main "HOL-Library.Word"
begin

section \<open>Values of the Python program\<close>

text \<open>
  A Python \<^verbatim>\<open>bytes\<close> object is a sequence of octets and a Python \<^verbatim>\<open>str\<close> is a
  sequence of Unicode code points. Neither is an Isabelle \<open>string\<close>, whose characters
  are octets, so code points are kept as natural numbers.
\<close>

type_synonym byte = "8 word"
type_synonym bytes = "byte list"
type_synonym py_str = "nat list"

text \<open>
  The exceptions that can leave the decoders, named by the kind the specification gives
  them: \<^verbatim>\<open>UnicodeDecodeError\<close> from \<^verbatim>\<open>bytes.decode\<close> is \<open>InvalidEncoding\<close>, a failed
  enumeration lookup is \<open>InvalidEnum\<close>, a failed read of the record is
  \<open>MalformedBuffer\<close>. \<open>AttributeError\<close> is what Python raises for a method call on
  \<^verbatim>\<open>None\<close>.
\<close>

datatype error = MalformedBuffer | InvalidEnum | InvalidEncoding | AttributeError

subsection \<open>\<^verbatim>\<open>bytes.decode("utf-8")\<close>\<close>

text \<open>
  Python's strict UTF-8 codec: shortest form only, no surrogates, nothing above U+10FFFF.
  \<open>seq_len\<close> is the length of the sequence a lead octet announces (0 for an octet that
  cannot start one), \<open>second_ok\<close> is the range the lead octet leaves to the second octet.
\<close>

definition seq_len :: "byte \<Rightarrow> nat" where
  "seq_len b =
     (let n = unat b in
      if n < 0x80 then 1
      else if 0xC2 \<le> n \<and> n \<le> 0xDF then 2
      else if 0xE0 \<le> n \<and> n \<le> 0xEF then 3
      else if 0xF0 \<le> n \<and> n \<le> 0xF4 then 4
      else 0)"

definition is_continuation :: "byte \<Rightarrow> bool" where
  "is_continuation b = (0x80 \<le> unat b \<and> unat b \<le> 0xBF)"

definition second_ok :: "byte \<Rightarrow> byte \<Rightarrow> bool" where
  "second_ok lead b =
     (let l = unat lead; n = unat b in
      if l = 0xE0 then 0xA0 \<le> n \<and> n \<le> 0xBF
      else if l = 0xED then 0x80 \<le> n \<and> n \<le> 0x9F
      else if l = 0xF0 then 0x90 \<le> n \<and> n \<le> 0xBF
      else if l = 0xF4 then 0x80 \<le> n \<and> n \<le> 0x8F
      else 0x80 \<le> n \<and> n \<le> 0xBF)"

definition lead_bits :: "byte \<Rightarrow> nat" where
  "lead_bits b =
     (let n = unat b in
      if seq_len b = 2 then n - 0xC0
      else if seq_len b = 3 then n - 0xE0
      else if seq_len b = 4 then n - 0xF0
      else n)"

definition code_point :: "byte \<Rightarrow> bytes \<Rightarrow> nat" where
  "code_point lead tail = foldl (\<lambda>acc b. acc * 64 + unat b mod 64) (lead_bits lead) tail"

function utf8_decode :: "bytes \<Rightarrow> error + py_str" where
  "utf8_decode [] = Inr []"
| "utf8_decode (b # bs) =
     (let n = seq_len b in
      if n = 0 \<or> length bs < n - 1 then Inl InvalidEncoding
      else if 2 \<le> n \<and> \<not> second_ok b (hd bs) then Inl InvalidEncoding
      else if \<not> list_all is_continuation (take (n - 1) bs) then Inl InvalidEncoding
      else (case utf8_decode (drop (n - 1) bs) of
              Inl e \<Rightarrow> Inl e
            | Inr cps \<Rightarrow> Inr (code_point b (take (n - 1) bs) # cps)))"
  by pat_completeness auto
termination
  by (relation "measure length") auto

section \<open>The FlatBuffers layer\<close>

text \<open>
  \<^verbatim>\<open>FBColumnMeta\<close> is the accessor class generated from the schema; it and the
  FlatBuffers runtime are not part of the Python sources. What \<^verbatim>\<open>from_byte_buffer\<close>
  sees of a record is the value of each accessor: a string accessor gives the octets
  of the field or \<^verbatim>\<open>None\<close> when the field is absent, a scalar accessor gives the stored
  value or the schema default.
\<close>

record FBColumnMeta =
  Name :: "bytes option"
  Type :: int
  Title :: "bytes option"
  Description :: "bytes option"
  Precision :: int
  Scale :: int
  Nullable :: bool
  Unique :: bool
  PrimaryKey :: bool
  Metadata :: "bytes option"

text \<open>
  The external schema, a parameter of the model: which buffers it rejects, the accessor
  values of a column record, and the name table of the \<^verbatim>\<open>ColumnType\<close> enumeration.
\<close>

record fb_schema =
  ill_formed :: "bytes \<Rightarrow> bool"
  column_record :: "bytes \<Rightarrow> FBColumnMeta"
  type_names :: "int \<Rightarrow> py_str option"

text \<open>
  Modelled from the spec: \<^verbatim>\<open>FBColumnMeta.GetRootAsColumnMeta\<close>, the generated root
  reader, which is missing from the sources. A buffer that is too short (zero length),
  has a bad header magic or holds an offset pointing outside the buffer is a
  \<open>MalformedBuffer\<close>; the last two are the schema's \<open>ill_formed\<close>.
\<close>

definition GetRootAsColumnMeta :: "fb_schema \<Rightarrow> bytes \<Rightarrow> error + FBColumnMeta" where
  "GetRootAsColumnMeta S bb =
     (if length bb = 0 \<or> ill_formed S bb then Inl MalformedBuffer
      else Inr (column_record S bb))"

text \<open>
  The value stored in the \<^verbatim>\<open>type\<close> attribute. Python does not enforce the annotation
  \<^verbatim>\<open>type: ColumnType\<close>, so the attribute holds either a member of the enumeration or a
  name.
\<close>

datatype type_value = EnumMember int | EnumName py_str

text \<open>
  Modelled from the spec: \<^verbatim>\<open>ColumnType.Name\<close>, the lookup of the generated enumeration
  module, which is missing from the sources. It is an enum-value-to-name lookup in a
  runtime name table; a value outside the known set is an \<open>InvalidEnum\<close> error.
\<close>

definition ColumnType_Name :: "fb_schema \<Rightarrow> int \<Rightarrow> error + type_value" where
  "ColumnType_Name S v =
     (case type_names S v of None \<Rightarrow> Inl InvalidEnum | Some nm \<Rightarrow> Inr (EnumName nm))"

section \<open>\<^verbatim>\<open>column_meta.py\<close>\<close>

record ColumnMeta =
  name :: py_str
  type :: type_value
  title :: "py_str option"
  description :: "py_str option"
  precision :: int
  scale :: int
  nullable :: bool
  unique :: bool
  primary_key :: bool
  metadata :: "py_str option"

text \<open>
  \<^verbatim>\<open>ColumnMeta.__init__\<close>: every argument is stored as it is given. The defaults of the
  parameters do not matter here, \<^verbatim>\<open>from_byte_buffer\<close> passes all ten.
\<close>

definition ColumnMeta_init ::
  "py_str \<Rightarrow> type_value \<Rightarrow> py_str option \<Rightarrow> py_str option \<Rightarrow> int \<Rightarrow> int \<Rightarrow> bool \<Rightarrow> bool \<Rightarrow>
   bool \<Rightarrow> py_str option \<Rightarrow> ColumnMeta" where
  "ColumnMeta_init name' type' title' description' precision' scale' nullable' unique'
     primary_key' metadata' =
   \<lparr>name = name', type = type', title = title', description = description',
    precision = precision', scale = scale', nullable = nullable', unique = unique',
    primary_key = primary_key', metadata = metadata'\<rparr>"

text \<open>Truthiness of a value that is \<^verbatim>\<open>None\<close> or a \<^verbatim>\<open>bytes\<close> object.\<close>

definition truthy :: "bytes option \<Rightarrow> bool" where
  "truthy v = (case v of None \<Rightarrow> False | Some b \<Rightarrow> b \<noteq> [])"

text \<open>The method call \<^verbatim>\<open>v.decode("utf-8")\<close>.\<close>

definition decode :: "bytes option \<Rightarrow> error + py_str" where
  "decode v = (case v of None \<Rightarrow> Inl AttributeError | Some b \<Rightarrow> utf8_decode b)"

text \<open>
  \<^verbatim>\<open>ColumnMeta.from_byte_buffer\<close>. Each \<open>case\<close> and each \<open>let\<close> binding is one
  assignment of the source, in the source's order; an exception ends the call, and the
  last line is \<^verbatim>\<open>return cls(...)\<close>.
\<close>

definition from_byte_buffer :: "fb_schema \<Rightarrow> bytes \<Rightarrow> error + ColumnMeta" where
  "from_byte_buffer S bb =
     (case GetRootAsColumnMeta S bb of Inl e \<Rightarrow> Inl e | Inr fb_column_meta \<Rightarrow>
      (case (if truthy (Name fb_column_meta) then decode (Name fb_column_meta) else Inr [])
       of Inl e \<Rightarrow> Inl e | Inr name' \<Rightarrow>
      (let type_enum = Type fb_column_meta in
      (case ColumnType_Name S type_enum of Inl e \<Rightarrow> Inl e | Inr type' \<Rightarrow>
      (case (if truthy (Title fb_column_meta)
             then map_sum id Some (decode (Title fb_column_meta)) else Inr None)
       of Inl e \<Rightarrow> Inl e | Inr title' \<Rightarrow>
      (case (if truthy (Description fb_column_meta)
             then map_sum id Some (decode (Description fb_column_meta)) else Inr None)
       of Inl e \<Rightarrow> Inl e | Inr description' \<Rightarrow>
      (let precision' = Precision fb_column_meta;
           scale' = Scale fb_column_meta;
           nullable' = Nullable fb_column_meta;
           unique' = Unique fb_column_meta;
           primary_key' = PrimaryKey fb_column_meta in
      (case (if truthy (Metadata fb_column_meta)
             then map_sum id Some (decode (Metadata fb_column_meta)) else Inr None)
       of Inl e \<Rightarrow> Inl e | Inr metadata' \<Rightarrow>
        Inr (ColumnMeta_init name' type' title' description' precision' scale' nullable'
               unique' primary_key' metadata')))))))))"

section \<open>\<^verbatim>\<open>header.py\<close>\<close>

text \<open>
  The class \<^verbatim>\<open>HeaderMeta\<close>. The transform, the geographical extent and the reference
  system are generated FlatBuffers types that this layer passes through, so they are
  type parameters. Text attributes hold \<^verbatim>\<open>None\<close> when the field is absent.
\<close>

record ('t, 'g, 'r) HeaderMeta =
  transform :: 't
  columns :: "ColumnMeta list"
  features_count :: int
  index_node_size :: int
  geographical_extent :: 'g
  reference_system :: 'r
  "identifier" :: "py_str option"
  reference_date :: "py_str option"
  title :: "py_str option"
  poc_contact_name :: "py_str option"
  poc_contact_type :: "py_str option"
  poc_role :: "py_str option"
  poc_phone :: "py_str option"
  poc_email :: "py_str option"
  poc_website :: "py_str option"
  poc_address_thoroughfare_number :: "py_str option"
  poc_address_thoroughfare_name :: "py_str option"
  poc_address_locality :: "py_str option"
  poc_address_postcode :: "py_str option"
  poc_address_country :: "py_str option"
  attributes :: "int list"

text \<open>\<^verbatim>\<open>HeaderMeta.__init__\<close>: every argument is stored as it is given.\<close>

definition HeaderMeta_init ::
  "'t \<Rightarrow> ColumnMeta list \<Rightarrow> int \<Rightarrow> int \<Rightarrow> 'g \<Rightarrow> 'r \<Rightarrow> py_str option \<Rightarrow> py_str option \<Rightarrow>
   py_str option \<Rightarrow> py_str option \<Rightarrow> py_str option \<Rightarrow> py_str option \<Rightarrow> py_str option \<Rightarrow>
   py_str option \<Rightarrow> py_str option \<Rightarrow> py_str option \<Rightarrow> py_str option \<Rightarrow> py_str option \<Rightarrow>
   py_str option \<Rightarrow> py_str option \<Rightarrow> int list \<Rightarrow> ('t, 'g, 'r) HeaderMeta" where
  "HeaderMeta_init transform' columns' features_count' index_node_size'
     geographical_extent' reference_system' identifier' reference_date' title'
     poc_contact_name' poc_contact_type' poc_role' poc_phone' poc_email' poc_website'
     poc_address_thoroughfare_number' poc_address_thoroughfare_name'
     poc_address_locality' poc_address_postcode' poc_address_country' attributes' =
   \<lparr>transform = transform', columns = columns', features_count = features_count',
    index_node_size = index_node_size', geographical_extent = geographical_extent',
    reference_system = reference_system', identifier = identifier',
    reference_date = reference_date', title = title',
    poc_contact_name = poc_contact_name', poc_contact_type = poc_contact_type',
    poc_role = poc_role', poc_phone = poc_phone', poc_email = poc_email',
    poc_website = poc_website',
    poc_address_thoroughfare_number = poc_address_thoroughfare_number',
    poc_address_thoroughfare_name = poc_address_thoroughfare_name',
    poc_address_locality = poc_address_locality',
    poc_address_postcode = poc_address_postcode',
    poc_address_country = poc_address_country', attributes = attributes'\<rparr>"

subsection \<open>The header decoder\<close>

text \<open>
  Modelled from the spec: the accessor values of a serialized header record (the
  generated header class is missing from the sources). The embedded column records are
  given as the buffers the column decoder is invoked on, in their declared order.
\<close>

record ('t, 'g, 'r) FBHeader =
  Transform :: 't
  Columns :: "bytes list"
  FeaturesCount :: int
  IndexNodeSize :: int
  GeographicalExtent :: 'g
  ReferenceSystem :: 'r
  Identifier :: "bytes option"
  ReferenceDate :: "bytes option"
  Title :: "bytes option"
  PocContactName :: "bytes option"
  PocContactType :: "bytes option"
  PocRole :: "bytes option"
  PocPhone :: "bytes option"
  PocEmail :: "bytes option"
  PocWebsite :: "bytes option"
  PocAddressThoroughfareNumber :: "bytes option"
  PocAddressThoroughfareName :: "bytes option"
  PocAddressLocality :: "bytes option"
  PocAddressPostcode :: "bytes option"
  PocAddressCountry :: "bytes option"
  Attributes :: "int list"

text \<open>
  The external schema of the header, a parameter of the model as \<open>fb_schema\<close> is for the
  column record.
\<close>

record ('t, 'g, 'r) header_schema =
  header_ill_formed :: "bytes \<Rightarrow> bool"
  header_record :: "bytes \<Rightarrow> ('t, 'g, 'r) FBHeader"

text \<open>
  Modelled from the spec: the errors of the header decoder, which is missing from the
  sources. An error is the error of the header record itself, or the innermost error
  kind together with the path of the field that failed.
\<close>

datatype header_error = Record_error error | Field_error string error

text \<open>
  Modelled from the spec: the printed form of an error of the header decoder,
  \<^verbatim>\<open>columns[3]: InvalidEncoding\<close>: the path, a colon and the kind. \<open>show_nat\<close> writes an
  index in decimal.
\<close>

function show_nat :: "nat \<Rightarrow> string" where
  "show_nat n =
     (if n < 10 then [''0123456789'' ! n]
      else show_nat (n div 10) @ [''0123456789'' ! (n mod 10)])"
  by pat_completeness auto
termination
  by (relation "measure id") auto

definition columns_path :: "nat \<Rightarrow> string" where
  "columns_path k = ''columns['' @ show_nat k @ '']''"

fun kind_name :: "error \<Rightarrow> string" where
  "kind_name MalformedBuffer = ''MalformedBuffer''"
| "kind_name InvalidEnum = ''InvalidEnum''"
| "kind_name InvalidEncoding = ''InvalidEncoding''"
| "kind_name AttributeError = ''AttributeError''"

fun show_error :: "header_error \<Rightarrow> string" where
  "show_error (Record_error e) = kind_name e"
| "show_error (Field_error path e) = path @ '': '' @ kind_name e"

text \<open>
  Modelled from the spec: the root reader of the header record, with the same
  \<open>MalformedBuffer\<close> conditions as the one of the column record.
\<close>

definition GetRootAsHeader ::
  "('t, 'g, 'r) header_schema \<Rightarrow> bytes \<Rightarrow> error + ('t, 'g, 'r) FBHeader" where
  "GetRootAsHeader H bb =
     (if length bb = 0 \<or> header_ill_formed H bb then Inl MalformedBuffer
      else Inr (header_record H bb))"

text \<open>
  Modelled from the spec: an optional string of the header. An absent field is null, a
  present one is decoded as UTF-8 text, and a failure carries the path of the field.
\<close>

definition decode_text :: "string \<Rightarrow> bytes option \<Rightarrow> header_error + py_str option" where
  "decode_text path v =
     (case v of
        None \<Rightarrow> Inr None
      | Some b \<Rightarrow> (case utf8_decode b of
                    Inl e \<Rightarrow> Inl (Field_error path e)
                  | Inr s \<Rightarrow> Inr (Some s)))"

text \<open>
  Modelled from the spec: the \<open>columns\<close> field. The embedded records are visited in
  declared order, the column decoder is invoked on each, and the first failure ends
  the decode with the failing index in the path; \<open>k\<close> is the index of the first entry
  of the list.
\<close>

fun decode_columns :: "fb_schema \<Rightarrow> nat \<Rightarrow> bytes list \<Rightarrow> header_error + ColumnMeta list" where
  "decode_columns S k [] = Inr []"
| "decode_columns S k (entry # entries) =
     (case from_byte_buffer S entry of
        Inl e \<Rightarrow> Inl (Field_error (columns_path k) e)
      | Inr c \<Rightarrow> (case decode_columns S (Suc k) entries of
                    Inl e \<Rightarrow> Inl e
                  | Inr cs \<Rightarrow> Inr (c # cs)))"

text \<open>
  Modelled from the spec: the header decoder, which is missing from the sources. The
  fields are decoded in the order of the parameters of \<^verbatim>\<open>HeaderMeta.__init__\<close>, as
  \<^verbatim>\<open>ColumnMeta.from_byte_buffer\<close> does for its own; the transform, the extent, the
  reference system, the two counts and the attribute list are passed through.
\<close>

definition HeaderMeta_from_byte_buffer ::
  "fb_schema \<Rightarrow> ('t, 'g, 'r) header_schema \<Rightarrow> bytes \<Rightarrow> header_error + ('t, 'g, 'r) HeaderMeta"
  where
  "HeaderMeta_from_byte_buffer S H bb =
     (case GetRootAsHeader H bb of Inl e \<Rightarrow> Inl (Record_error e) | Inr fb \<Rightarrow>
      (case decode_columns S 0 (Columns fb) of Inl e \<Rightarrow> Inl e | Inr columns' \<Rightarrow>
      (case decode_text ''identifier'' (Identifier fb) of Inl e \<Rightarrow> Inl e | Inr t1 \<Rightarrow>
      (case decode_text ''reference_date'' (ReferenceDate fb) of Inl e \<Rightarrow> Inl e | Inr t2 \<Rightarrow>
      (case decode_text ''title'' (Title fb) of Inl e \<Rightarrow> Inl e | Inr t3 \<Rightarrow>
      (case decode_text ''poc_contact_name'' (PocContactName fb) of Inl e \<Rightarrow> Inl e | Inr t4 \<Rightarrow>
      (case decode_text ''poc_contact_type'' (PocContactType fb) of Inl e \<Rightarrow> Inl e | Inr t5 \<Rightarrow>
      (case decode_text ''poc_role'' (PocRole fb) of Inl e \<Rightarrow> Inl e | Inr t6 \<Rightarrow>
      (case decode_text ''poc_phone'' (PocPhone fb) of Inl e \<Rightarrow> Inl e | Inr t7 \<Rightarrow>
      (case decode_text ''poc_email'' (PocEmail fb) of Inl e \<Rightarrow> Inl e | Inr t8 \<Rightarrow>
      (case decode_text ''poc_website'' (PocWebsite fb) of Inl e \<Rightarrow> Inl e | Inr t9 \<Rightarrow>
      (case decode_text ''poc_address_thoroughfare_number'' (PocAddressThoroughfareNumber fb)
       of Inl e \<Rightarrow> Inl e | Inr t10 \<Rightarrow>
      (case decode_text ''poc_address_thoroughfare_name'' (PocAddressThoroughfareName fb)
       of Inl e \<Rightarrow> Inl e | Inr t11 \<Rightarrow>
      (case decode_text ''poc_address_locality'' (PocAddressLocality fb)
       of Inl e \<Rightarrow> Inl e | Inr t12 \<Rightarrow>
      (case decode_text ''poc_address_postcode'' (PocAddressPostcode fb)
       of Inl e \<Rightarrow> Inl e | Inr t13 \<Rightarrow>
      (case decode_text ''poc_address_country'' (PocAddressCountry fb)
       of Inl e \<Rightarrow> Inl e | Inr t14 \<Rightarrow>
        Inr (HeaderMeta_init (Transform fb) columns' (FeaturesCount fb) (IndexNodeSize fb)
               (GeographicalExtent fb) (ReferenceSystem fb) t1 t2 t3 t4 t5 t6 t7 t8 t9
               t10 t11 t12 t13 t14 (Attributes fb))))))))))))))))))"

section \<open>Sample inputs\<close>

text \<open>
  Concrete schemas and records on which the theorems below are run. \<open>py\<close> is the
  Python string of an ASCII literal; \<open>known_names\<close> is a name table with three members.
\<close>

definition py :: "string \<Rightarrow> py_str" where
  "py s = map of_char s"

definition known_names :: "int \<Rightarrow> py_str option" where
  "known_names v =
     (if v = 0 then Some (py ''Byte'')
      else if v = 1 then Some (py ''UByte'')
      else if v = 2 then Some (py ''Bool'')
      else None)"

text \<open>The schema under which every non-empty buffer holds the record \<open>r\<close>.\<close>

definition schema_of :: "FBColumnMeta \<Rightarrow> fb_schema" where
  "schema_of r = \<lparr>ill_formed = (\<lambda>bb. False), column_record = (\<lambda>bb. r), type_names = known_names\<rparr>"

text \<open>A record with every string absent and every scalar at its default.\<close>

definition bare_record :: FBColumnMeta where
  "bare_record =
     \<lparr>Name = None, Type = 2, Title = None, Description = None, Precision = - 1, Scale = - 1,
      Nullable = True, Unique = False, PrimaryKey = False, Metadata = None\<rparr>"

text \<open>
  A small layout: the first octet of a buffer is the offset of the description (0 when
  the field is absent) and the description runs from that offset to the end of the
  buffer; an offset beyond the end is an offset pointing outside the buffer. Every
  column is named \<^verbatim>\<open>c\<close>. So \<^verbatim>\<open>b"\x00"\<close> has no description, \<^verbatim>\<open>b"\x01"\<close> an empty one,
  \<^verbatim>\<open>b"\x01A"\<close> the description \<^verbatim>\<open>A\<close>, the description of \<^verbatim>\<open>b"\x01\xff"\<close> is not UTF-8
  and \<^verbatim>\<open>b"\x05A"\<close> is ill-formed.
\<close>

definition described :: fb_schema where
  "described =
     \<lparr>ill_formed = (\<lambda>bb. length bb < unat (hd bb)),
      column_record =
        (\<lambda>bb. bare_record
           \<lparr>Name := Some [0x63],
            Description := (if hd bb = 0 then None else Some (drop (unat (hd bb)) bb))\<rparr>),
      type_names = known_names\<rparr>"

text \<open>The column that this layout decodes to, for a decoded description \<open>d\<close>.\<close>

definition sample_column :: "py_str option \<Rightarrow> ColumnMeta" where
  "sample_column d = ColumnMeta_init [99] (EnumName (py ''Bool'')) None d (- 1) (- 1) True False False None"

text \<open>The header schema under which every non-empty buffer holds the header \<open>h\<close>.\<close>

definition header_schema_of :: "('t, 'g, 'r) FBHeader \<Rightarrow> ('t, 'g, 'r) header_schema" where
  "header_schema_of h = \<lparr>header_ill_formed = (\<lambda>bb. False), header_record = (\<lambda>bb. h)\<rparr>"

text \<open>A header with the given column buffers and attribute list and no text.\<close>

definition bare_header :: "bytes list \<Rightarrow> int list \<Rightarrow> (unit, unit, unit) FBHeader" where
  "bare_header cols attrs =
     \<lparr>Transform = (), Columns = cols, FeaturesCount = 0, IndexNodeSize = 16,
      GeographicalExtent = (), ReferenceSystem = (), Identifier = None,
      ReferenceDate = None, Title = None, PocContactName = None, PocContactType = None,
      PocRole = None, PocPhone = None, PocEmail = None, PocWebsite = None,
      PocAddressThoroughfareNumber = None, PocAddressThoroughfareName = None,
      PocAddressLocality = None, PocAddressPostcode = None, PocAddressCountry = None,
      Attributes = attrs\<rparr>"

section \<open>Properties of the input\<close>

text \<open>A string field that is present but whose octets are not valid UTF-8.\<close>

definition bad_text :: "bytes option \<Rightarrow> bool" where
  "bad_text v = (case v of None \<Rightarrow> False | Some b \<Rightarrow> isl (utf8_decode b))"

text \<open>A string field in which a present value of length zero is replaced by an absent one.\<close>

definition blank :: "bytes option \<Rightarrow> bytes option" where
  "blank v = (if v = Some [] then None else v)"

section \<open>Facts about the decoding steps\<close>

lemma utf8_decode_error: "utf8_decode bs = Inl e \<Longrightarrow> e = InvalidEncoding"
proof (induction bs arbitrary: e rule: utf8_decode.induct)
  case 1
  then show ?case by simp
next
  case (2 b bs)
  then show ?case
    by (auto simp: Let_def split: if_splits sum.splits)
qed

lemma utf8_decode_Nil: "utf8_decode bs = Inr [] \<Longrightarrow> bs = []"
  by (cases bs) (auto simp: Let_def split: if_splits sum.splits)

text \<open>The decoder at the borders of the ranges of UTF-8.\<close>

lemma utf8_decode_accepts:
  "utf8_decode [0x00] = Inr [0]"
  "utf8_decode [0x7F] = Inr [127]"
  "utf8_decode [0xC2, 0x80] = Inr [128]"
  "utf8_decode [0xDF, 0xBF] = Inr [2047]"
  "utf8_decode [0xE0, 0xA0, 0x80] = Inr [2048]"
  "utf8_decode [0xED, 0x9F, 0xBF] = Inr [55295]"
  "utf8_decode [0xEE, 0x80, 0x80] = Inr [57344]"
  "utf8_decode [0xEF, 0xBF, 0xBF] = Inr [65535]"
  "utf8_decode [0xF0, 0x90, 0x80, 0x80] = Inr [65536]"
  "utf8_decode [0xF4, 0x8F, 0xBF, 0xBF] = Inr [1114111]"
  "utf8_decode [0x41, 0xC3, 0xA9, 0xE2, 0x82, 0xAC] = Inr [65, 233, 8364]"
  by (simp_all add: seq_len_def second_ok_def is_continuation_def lead_bits_def code_point_def)

lemma utf8_decode_rejects:
  "utf8_decode [0x80] = Inl InvalidEncoding"
  "utf8_decode [0xC0, 0x80] = Inl InvalidEncoding"
  "utf8_decode [0xC1, 0xBF] = Inl InvalidEncoding"
  "utf8_decode [0xE0, 0x9F, 0xBF] = Inl InvalidEncoding"
  "utf8_decode [0xED, 0xA0, 0x80] = Inl InvalidEncoding"
  "utf8_decode [0xF0, 0x8F, 0xBF, 0xBF] = Inl InvalidEncoding"
  "utf8_decode [0xF4, 0x90, 0x80, 0x80] = Inl InvalidEncoding"
  "utf8_decode [0xF5, 0x80, 0x80, 0x80] = Inl InvalidEncoding"
  "utf8_decode [0xE2, 0x82] = Inl InvalidEncoding"
  "utf8_decode [0xE2, 0x82, 0x41] = Inl InvalidEncoding"
  "utf8_decode [0x41, 0xFF, 0x42] = Inl InvalidEncoding"
  by (simp_all add: seq_len_def second_ok_def is_continuation_def lead_bits_def code_point_def)

lemma bad_text_absent: "\<not> bad_text None" "\<not> bad_text (Some [])"
  by (simp_all add: bad_text_def)

lemma bad_text_blank: "bad_text (blank v) = bad_text v"
  by (simp add: blank_def bad_text_def)

lemma ColumnMeta_init_fields:
  "name (ColumnMeta_init n t ti d p s nu u pk m) = n"
  "type (ColumnMeta_init n t ti d p s nu u pk m) = t"
  "ColumnMeta.title (ColumnMeta_init n t ti d p s nu u pk m) = ti"
  "description (ColumnMeta_init n t ti d p s nu u pk m) = d"
  "precision (ColumnMeta_init n t ti d p s nu u pk m) = p"
  "scale (ColumnMeta_init n t ti d p s nu u pk m) = s"
  "nullable (ColumnMeta_init n t ti d p s nu u pk m) = nu"
  "unique (ColumnMeta_init n t ti d p s nu u pk m) = u"
  "primary_key (ColumnMeta_init n t ti d p s nu u pk m) = pk"
  "metadata (ColumnMeta_init n t ti d p s nu u pk m) = m"
  by (simp_all add: ColumnMeta_init_def)

text \<open>The conditional expression of an optional string, and the one of the name.\<close>

lemma text_field:
  "(if truthy v then map_sum id Some (decode v) else Inr None) =
     (if bad_text v then Inl InvalidEncoding
      else Inr (case v of None \<Rightarrow> None
                | Some b \<Rightarrow> if b = [] then None else Some (projr (utf8_decode b))))"
  by (cases v; cases "utf8_decode (the v)")
     (auto simp: truthy_def decode_def bad_text_def dest: utf8_decode_error)

lemma name_field:
  "(if truthy v then decode v else Inr []) =
     (if bad_text v then Inl InvalidEncoding
      else Inr (case v of None \<Rightarrow> [] | Some b \<Rightarrow> projr (utf8_decode b)))"
  by (cases v; cases "utf8_decode (the v)")
     (auto simp: truthy_def decode_def bad_text_def dest: utf8_decode_error)

text \<open>
  What \<open>from_byte_buffer\<close> returns once the root has been read: the first failing step
  decides the error, and with no failing step every field is set.
\<close>

lemma from_byte_buffer_fields:
  assumes "GetRootAsColumnMeta S bb = Inr fb"
  shows "from_byte_buffer S bb =
     (if bad_text (Name fb) then Inl InvalidEncoding
      else case type_names S (Type fb) of
        None \<Rightarrow> Inl InvalidEnum
      | Some nm \<Rightarrow>
         if bad_text (FBColumnMeta.Title fb) \<or> bad_text (Description fb) \<or> bad_text (Metadata fb)
         then Inl InvalidEncoding
         else Inr (ColumnMeta_init
                (case Name fb of None \<Rightarrow> [] | Some b \<Rightarrow> projr (utf8_decode b))
                (EnumName nm)
                (case FBColumnMeta.Title fb of None \<Rightarrow> None
                 | Some b \<Rightarrow> if b = [] then None else Some (projr (utf8_decode b)))
                (case Description fb of None \<Rightarrow> None
                 | Some b \<Rightarrow> if b = [] then None else Some (projr (utf8_decode b)))
                (Precision fb) (Scale fb) (Nullable fb) (Unique fb) (PrimaryKey fb)
                (case Metadata fb of None \<Rightarrow> None
                 | Some b \<Rightarrow> if b = [] then None else Some (projr (utf8_decode b)))))"
  unfolding from_byte_buffer_def assms name_field text_field ColumnType_Name_def Let_def
  by (simp split: option.splits)

text \<open>No optional string of a decoded column is the empty string.\<close>

lemma optional_text_never_empty:
  assumes "from_byte_buffer S bb = Inr cm"
  shows "ColumnMeta.title cm \<noteq> Some [] \<and> description cm \<noteq> Some [] \<and> metadata cm \<noteq> Some []"
proof -
  from assms obtain fb where root: "GetRootAsColumnMeta S bb = Inr fb"
    by (cases "GetRootAsColumnMeta S bb") (auto simp: from_byte_buffer_def)
  have decoded: "projr (utf8_decode b) \<noteq> []" if "b \<noteq> []" "\<not> bad_text (Some b)" for b
    using that utf8_decode_Nil [of b]
    by (cases "utf8_decode b") (auto simp: bad_text_def)
  from assms show ?thesis
    unfolding from_byte_buffer_fields [OF root]
    by (auto simp: ColumnMeta_init_fields decoded split: if_splits option.splits)
qed

text \<open>The sample buffers, decoded.\<close>

lemma bare_record_decoded:
  "from_byte_buffer (schema_of bare_record) [0] =
     Inr (ColumnMeta_init [] (EnumName (py ''Bool'')) None None (- 1) (- 1) True False False None)"
  by (simp add: from_byte_buffer_def GetRootAsColumnMeta_def schema_of_def known_names_def
      ColumnType_Name_def truthy_def bare_record_def)

lemma described_ascii:
  "from_byte_buffer described [1, 0x41] = Inr (sample_column (Some [65]))"
  "from_byte_buffer described [1, 0x42] = Inr (sample_column (Some [66]))"
  "from_byte_buffer described [1, 0x43] = Inr (sample_column (Some [67]))"
  by (simp_all add: from_byte_buffer_def GetRootAsColumnMeta_def described_def known_names_def
      ColumnType_Name_def truthy_def decode_def bare_record_def sample_column_def
      seq_len_def code_point_def lead_bits_def)

lemma described_absent_empty:
  "from_byte_buffer described [0] = Inr (sample_column None)"
  "from_byte_buffer described [1] = Inr (sample_column None)"
  by (simp_all add: from_byte_buffer_def GetRootAsColumnMeta_def described_def known_names_def
      ColumnType_Name_def truthy_def decode_def bare_record_def sample_column_def
      seq_len_def code_point_def lead_bits_def)

lemma described_invalid:
  "from_byte_buffer described [1, 0xFF] = Inl InvalidEncoding"
  by (simp add: from_byte_buffer_def GetRootAsColumnMeta_def described_def known_names_def
      ColumnType_Name_def truthy_def decode_def bare_record_def seq_len_def)

section \<open>The column decoder\<close>

text \<open>
  C2, as amended. A column record whose type value is outside the known set never
  decodes: \<open>from_byte_buffer\<close> fails, with \<open>InvalidEnum\<close> unless the name, which is
  decoded before the type is looked up, is present and not valid UTF-8; then the
  failure is the \<open>InvalidEncoding\<close> of the name.
\<close>

theorem unknown_type_fails:
  assumes "GetRootAsColumnMeta S bb = Inr fb" and "type_names S (Type fb) = None"
  shows "from_byte_buffer S bb =
           (if bad_text (Name fb) then Inl InvalidEncoding else Inl InvalidEnum)"
  using assms by (simp add: from_byte_buffer_fields)

theorem unknown_type_fails_witness:
  "GetRootAsColumnMeta (schema_of (bare_record\<lparr>Type := 99\<rparr>)) [0] = Inr (bare_record\<lparr>Type := 99\<rparr>)
   \<and> type_names (schema_of (bare_record\<lparr>Type := 99\<rparr>)) (Type (bare_record\<lparr>Type := 99\<rparr>)) = None
   \<and> from_byte_buffer (schema_of (bare_record\<lparr>Type := 99\<rparr>)) [0] = Inl InvalidEnum"
proof -
  let ?r = "bare_record\<lparr>Type := 99\<rparr>"
  have root: "GetRootAsColumnMeta (schema_of ?r) [0] = Inr ?r"
    by (simp add: GetRootAsColumnMeta_def schema_of_def)
  have unknown: "type_names (schema_of ?r) (Type ?r) = None"
    by (simp add: schema_of_def known_names_def)
  have "\<not> bad_text (Name ?r)"
    by (simp add: bad_text_def bare_record_def)
  with unknown_type_fails [OF root unknown] root unknown show ?thesis
    by simp
qed

text \<open>
  C2 as stated fails on a record whose type value 99 is unknown and whose name is the
  single octet FF: the error is \<open>InvalidEncoding\<close>, not \<open>InvalidEnum\<close>.
\<close>

theorem unknown_type_counterexample:
  "type_names (schema_of (bare_record\<lparr>Name := Some [0xFF], Type := 99\<rparr>)) 99 = None
   \<and> from_byte_buffer (schema_of (bare_record\<lparr>Name := Some [0xFF], Type := 99\<rparr>)) [0]
       = Inl InvalidEncoding"
  by (simp add: from_byte_buffer_def GetRootAsColumnMeta_def schema_of_def known_names_def
      truthy_def decode_def seq_len_def)

text \<open>
  C3, as amended. For a column record whose type value is inside the known set, the
  \<open>type\<close> field of the decoded column is the name that the name table gives for that
  value, a string, and not the member of the enumeration.
\<close>

theorem type_is_name:
  assumes "GetRootAsColumnMeta S bb = Inr fb" and "type_names S (Type fb) = Some nm"
    and "from_byte_buffer S bb = Inr cm"
  shows "type cm = EnumName nm"
  using assms by (auto simp: from_byte_buffer_fields ColumnMeta_init_fields split: if_splits)

theorem type_is_name_witness:
  "GetRootAsColumnMeta (schema_of bare_record) [0] = Inr bare_record
   \<and> type_names (schema_of bare_record) (Type bare_record) = Some (py ''Bool'')
   \<and> map_sum id type (from_byte_buffer (schema_of bare_record) [0]) = Inr (EnumName (py ''Bool''))"
proof -
  have root: "GetRootAsColumnMeta (schema_of bare_record) [0] = Inr bare_record"
    by (simp add: GetRootAsColumnMeta_def schema_of_def)
  have known: "type_names (schema_of bare_record) (Type bare_record) = Some (py ''Bool'')"
    by (simp add: schema_of_def known_names_def bare_record_def)
  from type_is_name [OF root known bare_record_decoded] root known show ?thesis
    by (simp add: bare_record_decoded)
qed

text \<open>
  C3 as stated fails on the record of type value 2: the decoded \<open>type\<close> is the name
  \<^verbatim>\<open>Bool\<close>, not the member 2 of the enumeration.
\<close>

theorem type_is_member_counterexample:
  "type_names (schema_of bare_record) (Type bare_record) = Some (py ''Bool'')
   \<and> map_sum id type (from_byte_buffer (schema_of bare_record) [0]) = Inr (EnumName (py ''Bool''))
   \<and> map_sum id type (from_byte_buffer (schema_of bare_record) [0]) \<noteq> Inr (EnumMember 2)"
proof -
  have "type_names (schema_of bare_record) (Type bare_record) = Some (py ''Bool'')"
    by (simp add: schema_of_def known_names_def bare_record_def)
  then show ?thesis
    by (simp add: bare_record_decoded ColumnMeta_init_fields)
qed

text \<open>
  C4. Whenever \<open>from_byte_buffer\<close> returns a column, an absent title, description or
  metadata field is null in it, and an absent name is the empty string.
\<close>

theorem absent_fields:
  assumes "GetRootAsColumnMeta S bb = Inr fb" and "from_byte_buffer S bb = Inr cm"
  shows "(FBColumnMeta.Title fb = None \<longrightarrow> ColumnMeta.title cm = None)
       \<and> (Description fb = None \<longrightarrow> description cm = None)
       \<and> (Metadata fb = None \<longrightarrow> metadata cm = None)
       \<and> (Name fb = None \<longrightarrow> name cm = [])"
  using assms
  by (auto simp: from_byte_buffer_fields ColumnMeta_init_fields split: if_splits option.splits)

theorem absent_fields_witness:
  "GetRootAsColumnMeta (schema_of bare_record) [0] = Inr bare_record
   \<and> FBColumnMeta.Title bare_record = None \<and> Description bare_record = None
   \<and> Metadata bare_record = None \<and> Name bare_record = None
   \<and> map_sum id (\<lambda>cm. (name cm, ColumnMeta.title cm, description cm, metadata cm))
        (from_byte_buffer (schema_of bare_record) [0]) = Inr ([], None, None, None)"
proof -
  have root: "GetRootAsColumnMeta (schema_of bare_record) [0] = Inr bare_record"
    by (simp add: GetRootAsColumnMeta_def schema_of_def)
  have absent: "FBColumnMeta.Title bare_record = None" "Description bare_record = None"
    "Metadata bare_record = None" "Name bare_record = None"
    by (simp_all add: bare_record_def)
  from absent_fields [OF root bare_record_decoded] absent root show ?thesis
    by (simp add: bare_record_decoded)
qed

text \<open>
  C6, as amended. A column record in which the title, the description or the metadata
  is present but not valid UTF-8 never decodes: \<open>from_byte_buffer\<close> fails, with
  \<open>InvalidEncoding\<close> unless the name is fine and the type value, which is looked up
  before the optional strings are decoded, is unknown; then the failure is the
  \<open>InvalidEnum\<close> of the type.
\<close>

theorem invalid_text_fails:
  assumes "GetRootAsColumnMeta S bb = Inr fb"
    and "bad_text (FBColumnMeta.Title fb) \<or> bad_text (Description fb) \<or> bad_text (Metadata fb)"
  shows "from_byte_buffer S bb =
           (if \<not> bad_text (Name fb) \<and> type_names S (Type fb) = None then Inl InvalidEnum
            else Inl InvalidEncoding)"
  using assms by (auto simp: from_byte_buffer_fields split: option.splits)

theorem invalid_text_fails_witness:
  "GetRootAsColumnMeta described [1, 0xFF] =
     Inr (bare_record\<lparr>Name := Some [0x63], Description := Some [0xFF]\<rparr>)
   \<and> bad_text (Description (bare_record\<lparr>Name := Some [0x63], Description := Some [0xFF]\<rparr>))
   \<and> from_byte_buffer described [1, 0xFF] = Inl InvalidEncoding"
proof -
  let ?r = "bare_record\<lparr>Name := Some [0x63], Description := Some [0xFF]\<rparr>"
  have root: "GetRootAsColumnMeta described [1, 0xFF] = Inr ?r"
    by (simp add: GetRootAsColumnMeta_def described_def)
  have bad: "bad_text (Description ?r)"
    by (simp add: bad_text_def seq_len_def)
  then have "bad_text (FBColumnMeta.Title ?r) \<or> bad_text (Description ?r) \<or> bad_text (Metadata ?r)"
    by simp
  from invalid_text_fails [OF root this] root bad show ?thesis
    by (simp add: described_def known_names_def bare_record_def)
qed

text \<open>
  C6 as stated fails on a record whose title is the single octet FF and whose type
  value 99 is unknown: the error is \<open>InvalidEnum\<close>, not \<open>InvalidEncoding\<close>.
\<close>

theorem invalid_text_counterexample:
  "bad_text (FBColumnMeta.Title (bare_record\<lparr>Type := 99, FBColumnMeta.Title := Some [0xFF]\<rparr>))
   \<and> from_byte_buffer (schema_of (bare_record\<lparr>Type := 99, FBColumnMeta.Title := Some [0xFF]\<rparr>)) [0]
       = Inl InvalidEnum"
  by (simp add: from_byte_buffer_def GetRootAsColumnMeta_def schema_of_def known_names_def
      ColumnType_Name_def truthy_def bare_record_def bad_text_def seq_len_def)

text \<open>
  C8. Whenever \<open>from_byte_buffer\<close> returns a column, its precision and scale are the
  integers the accessors gave, the sentinel \<open>-1\<close> included.
\<close>

theorem precision_scale_pass_through:
  assumes "GetRootAsColumnMeta S bb = Inr fb" and "from_byte_buffer S bb = Inr cm"
  shows "precision cm = Precision fb \<and> scale cm = Scale fb"
  using assms
  by (auto simp: from_byte_buffer_fields ColumnMeta_init_fields split: if_splits option.splits)

theorem precision_scale_pass_through_witness:
  "GetRootAsColumnMeta (schema_of (bare_record\<lparr>Precision := - 1, Scale := 7\<rparr>)) [0]
     = Inr (bare_record\<lparr>Precision := - 1, Scale := 7\<rparr>)
   \<and> map_sum id (\<lambda>cm. (precision cm, scale cm))
        (from_byte_buffer (schema_of (bare_record\<lparr>Precision := - 1, Scale := 7\<rparr>)) [0])
       = Inr (- 1, 7)"
proof -
  let ?r = "bare_record\<lparr>Precision := - 1, Scale := 7\<rparr>"
  have root: "GetRootAsColumnMeta (schema_of ?r) [0] = Inr ?r"
    by (simp add: GetRootAsColumnMeta_def schema_of_def)
  obtain cm where result: "from_byte_buffer (schema_of ?r) [0] = Inr cm"
    by (simp add: from_byte_buffer_def GetRootAsColumnMeta_def schema_of_def known_names_def
        ColumnType_Name_def truthy_def bare_record_def)
  from precision_scale_pass_through [OF root result] root result show ?thesis
    by simp
qed

text \<open>
  C10. A title, description or metadata field that is present with length zero decodes
  to null, and the whole result, a column or an error, is the one of the buffer in
  which these fields are absent instead.
\<close>

theorem empty_text_is_absent:
  assumes "GetRootAsColumnMeta S bb = Inr fb"
    and "GetRootAsColumnMeta S bb' =
           Inr (fb\<lparr>FBColumnMeta.Title := blank (FBColumnMeta.Title fb),
                   Description := blank (Description fb),
                   Metadata := blank (Metadata fb)\<rparr>)"
  shows "from_byte_buffer S bb = from_byte_buffer S bb'
       \<and> (\<forall>cm. from_byte_buffer S bb = Inr cm \<longrightarrow>
            (FBColumnMeta.Title fb = Some [] \<longrightarrow> ColumnMeta.title cm = None)
          \<and> (Description fb = Some [] \<longrightarrow> description cm = None)
          \<and> (Metadata fb = Some [] \<longrightarrow> metadata cm = None))"
proof -
  have "from_byte_buffer S bb = from_byte_buffer S bb'"
    unfolding from_byte_buffer_fields [OF assms(1)] from_byte_buffer_fields [OF assms(2)]
    by (auto simp: bad_text_blank bad_text_absent blank_def split: option.splits)
  moreover have "\<forall>cm. from_byte_buffer S bb = Inr cm \<longrightarrow>
            (FBColumnMeta.Title fb = Some [] \<longrightarrow> ColumnMeta.title cm = None)
          \<and> (Description fb = Some [] \<longrightarrow> description cm = None)
          \<and> (Metadata fb = Some [] \<longrightarrow> metadata cm = None)"
    unfolding from_byte_buffer_fields [OF assms(1)]
    by (auto simp: ColumnMeta_init_fields split: option.splits if_splits)
  ultimately show ?thesis by simp
qed

theorem empty_text_is_absent_witness:
  "GetRootAsColumnMeta described [1]
     = Inr (bare_record\<lparr>Name := Some [0x63], Description := Some []\<rparr>)
   \<and> GetRootAsColumnMeta described [0]
     = Inr (bare_record\<lparr>Name := Some [0x63], Description := None\<rparr>)
   \<and> from_byte_buffer described [1] = from_byte_buffer described [0]
   \<and> map_sum id description (from_byte_buffer described [1]) = Inr None"
proof -
  let ?fb = "bare_record\<lparr>Name := Some [0x63], Description := Some []\<rparr>"
  have root: "GetRootAsColumnMeta described [1] = Inr ?fb"
    by (simp add: GetRootAsColumnMeta_def described_def)
  have root0: "GetRootAsColumnMeta described [0]
     = Inr (bare_record\<lparr>Name := Some [0x63], Description := None\<rparr>)"
    by (simp add: GetRootAsColumnMeta_def described_def)
  then have root': "GetRootAsColumnMeta described [0]
     = Inr (?fb\<lparr>FBColumnMeta.Title := blank (FBColumnMeta.Title ?fb),
                 Description := blank (Description ?fb), Metadata := blank (Metadata ?fb)\<rparr>)"
    by (simp add: blank_def bare_record_def)
  obtain cm where result: "from_byte_buffer described [1] = Inr cm"
    by (simp add: described_absent_empty)
  note both = empty_text_is_absent [OF root root']
  from both have same: "from_byte_buffer described [1] = from_byte_buffer described [0]"
    by simp
  from both result have "description cm = None"
    by simp
  with result have "map_sum id description (from_byte_buffer described [1]) = Inr None"
    by simp
  with same root root0 show ?thesis
    by simp
qed

section \<open>The header decoder\<close>

lemma decode_columns_in_order:
  "decode_columns S k entries = Inr cs \<Longrightarrow> map Inr cs = map (from_byte_buffer S) entries"
  by (induction entries arbitrary: k cs) (auto split: sum.splits)

text \<open>The entry that ends the decode is the first one on which the column decoder fails.\<close>

lemma decode_columns_first_failure:
  "j < length entries \<Longrightarrow> from_byte_buffer S (entries ! j) = Inl e \<Longrightarrow>
   \<forall>i<j. \<not> isl (from_byte_buffer S (entries ! i)) \<Longrightarrow>
   decode_columns S k entries = Inl (Field_error (columns_path (k + j)) e)"
proof (induction entries arbitrary: k j)
  case Nil
  then show ?case by simp
next
  case (Cons entry entries)
  show ?case
  proof (cases j)
    case 0
    with Cons.prems show ?thesis by simp
  next
    case (Suc j')
    from Cons.prems(3) Suc have "\<not> isl (from_byte_buffer S entry)"
      by auto
    then obtain c where head: "from_byte_buffer S entry = Inr c"
      by (cases "from_byte_buffer S entry") auto
    from Cons.prems Suc have "j' < length entries"
      and "from_byte_buffer S (entries ! j') = Inl e"
      and "\<forall>i<j'. \<not> isl (from_byte_buffer S (entries ! i))"
      by auto
    from Cons.IH [OF this, of "Suc k"] head Suc show ?thesis
      by simp
  qed
qed

lemma first_failing_index:
  assumes "isl (from_byte_buffer S (entries ! k))"
  shows "\<exists>j\<le>k. isl (from_byte_buffer S (entries ! j))
           \<and> (\<forall>i<j. \<not> isl (from_byte_buffer S (entries ! i)))"
proof -
  define j where "j = (LEAST j. isl (from_byte_buffer S (entries ! j)))"
  have "isl (from_byte_buffer S (entries ! j))"
    unfolding j_def using assms by (rule LeastI)
  moreover have "j \<le> k"
    unfolding j_def using assms by (rule Least_le)
  moreover have "\<forall>i<j. \<not> isl (from_byte_buffer S (entries ! i))"
    unfolding j_def using not_less_Least by blast
  ultimately show ?thesis by blast
qed

lemma header_columns_failure:
  assumes "GetRootAsHeader H bb = Inr fb" and "decode_columns S 0 (Columns fb) = Inl err"
  shows "HeaderMeta_from_byte_buffer S H bb = Inl err"
  using assms by (simp add: HeaderMeta_from_byte_buffer_def)

lemma header_success:
  assumes "GetRootAsHeader H bb = Inr fb" and "HeaderMeta_from_byte_buffer S H bb = Inr h"
  shows "decode_columns S 0 (Columns fb) = Inr (columns h) \<and> attributes h = Attributes fb"
  using assms
  by (auto simp: HeaderMeta_from_byte_buffer_def HeaderMeta_init_def split: sum.splits)

text \<open>
  C1. When the column decoder fails on the entry at index \<open>k\<close> of the columns of a
  header, the header decode fails as a whole: it returns an error and no header. The
  error carries the error kind of the column decoder on the failing entry, which is the
  first malformed one, and the path \<^verbatim>\<open>columns[j]\<close> of that entry, printed as
  \<^verbatim>\<open>columns[j]: kind\<close>; it is the entry \<open>k\<close> itself when no earlier entry is malformed.
\<close>

theorem malformed_column:
  assumes root: "GetRootAsHeader H bb = Inr fb"
    and k: "k < length (Columns fb)"
    and bad: "from_byte_buffer S (Columns fb ! k) = Inl e"
  shows "(\<exists>j\<le>k. \<exists>e'. (\<forall>i<j. \<not> isl (from_byte_buffer S (Columns fb ! i)))
            \<and> from_byte_buffer S (Columns fb ! j) = Inl e'
            \<and> HeaderMeta_from_byte_buffer S H bb = Inl (Field_error (columns_path j) e')
            \<and> show_error (Field_error (columns_path j) e')
                = ''columns['' @ show_nat j @ '']: '' @ kind_name e')
       \<and> ((\<forall>i<k. \<not> isl (from_byte_buffer S (Columns fb ! i))) \<longrightarrow>
            HeaderMeta_from_byte_buffer S H bb = Inl (Field_error (columns_path k) e))"
proof -
  have fails: "HeaderMeta_from_byte_buffer S H bb = Inl (Field_error (columns_path j) e')"
    if "j \<le> k" and "from_byte_buffer S (Columns fb ! j) = Inl e'"
      and "\<forall>i<j. \<not> isl (from_byte_buffer S (Columns fb ! i))" for j e'
  proof -
    from that(1) k have "j < length (Columns fb)" by simp
    from decode_columns_first_failure [OF this that(2,3), of 0]
    show ?thesis using root by (simp add: header_columns_failure)
  qed
  from bad have "isl (from_byte_buffer S (Columns fb ! k))" by simp
  from first_failing_index [OF this] obtain j
    where j: "j \<le> k" "isl (from_byte_buffer S (Columns fb ! j))"
      "\<forall>i<j. \<not> isl (from_byte_buffer S (Columns fb ! i))"
    by blast
  from j(2) obtain e' where e': "from_byte_buffer S (Columns fb ! j) = Inl e'"
    by (cases "from_byte_buffer S (Columns fb ! j)") auto
  have "show_error (Field_error (columns_path j) e')
          = ''columns['' @ show_nat j @ '']: '' @ kind_name e'"
    by (simp add: columns_path_def)
  with j e' fails [OF j(1) e' j(3)] have first: "\<exists>j\<le>k. \<exists>e'.
      (\<forall>i<j. \<not> isl (from_byte_buffer S (Columns fb ! i)))
      \<and> from_byte_buffer S (Columns fb ! j) = Inl e'
      \<and> HeaderMeta_from_byte_buffer S H bb = Inl (Field_error (columns_path j) e')
      \<and> show_error (Field_error (columns_path j) e')
          = ''columns['' @ show_nat j @ '']: '' @ kind_name e'"
    by blast
  have "HeaderMeta_from_byte_buffer S H bb = Inl (Field_error (columns_path k) e)"
    if "\<forall>i<k. \<not> isl (from_byte_buffer S (Columns fb ! i))"
    using fails [OF order_refl bad that] .
  with first show ?thesis by blast
qed

theorem malformed_column_witness:
  "GetRootAsHeader (header_schema_of (bare_header [[1, 0x41], [1, 0x42], [1, 0x43], [1, 0xFF]] [])) [0]
     = Inr (bare_header [[1, 0x41], [1, 0x42], [1, 0x43], [1, 0xFF]] [])
   \<and> from_byte_buffer described
        (Columns (bare_header [[1, 0x41], [1, 0x42], [1, 0x43], [1, 0xFF]] []) ! 3)
       = Inl InvalidEncoding
   \<and> HeaderMeta_from_byte_buffer described
        (header_schema_of (bare_header [[1, 0x41], [1, 0x42], [1, 0x43], [1, 0xFF]] [])) [0]
       = Inl (Field_error (columns_path 3) InvalidEncoding)
   \<and> show_error (Field_error (columns_path 3) InvalidEncoding) = ''columns[3]: InvalidEncoding''"
proof -
  let ?h = "bare_header [[1, 0x41], [1, 0x42], [1, 0x43], [1, 0xFF]] []"
  have root: "GetRootAsHeader (header_schema_of ?h) [0] = Inr ?h"
    by (simp add: GetRootAsHeader_def header_schema_of_def)
  have k: "3 < length (Columns ?h)"
    by (simp add: bare_header_def)
  have bad: "from_byte_buffer described (Columns ?h ! 3) = Inl InvalidEncoding"
    by (simp add: bare_header_def described_invalid)
  have earlier: "\<forall>i<3. \<not> isl (from_byte_buffer described (Columns ?h ! i))"
  proof (intro allI impI)
    fix i :: nat
    assume "i < 3"
    then consider "i = 0" | "i = 1" | "i = 2" by linarith
    then show "\<not> isl (from_byte_buffer described (Columns ?h ! i))"
      by cases (simp_all add: bare_header_def described_ascii)
  qed
  have shown: "show_error (Field_error (columns_path 3) InvalidEncoding) = ''columns[3]: InvalidEncoding''"
    by (simp add: columns_path_def)
  from malformed_column [OF root k bad] earlier root bad shown show ?thesis
    by simp
qed

text \<open>
  C5. A header that decodes has its columns in the order of the embedded records, each
  the decoding of the record at the same position, and its attributes are the integer
  list as it is, with its order and its duplicates.
\<close>

theorem order_preserved:
  assumes "GetRootAsHeader H bb = Inr fb" and "HeaderMeta_from_byte_buffer S H bb = Inr h"
  shows "map Inr (columns h) = map (from_byte_buffer S) (Columns fb)
       \<and> attributes h = Attributes fb"
  using header_success [OF assms] by (auto dest: decode_columns_in_order)

theorem order_preserved_witness:
  "GetRootAsHeader (header_schema_of (bare_header [[1, 0x41], [1, 0x42], [1, 0x43]] [2, 0, 2, 1])) [0]
     = Inr (bare_header [[1, 0x41], [1, 0x42], [1, 0x43]] [2, 0, 2, 1])
   \<and> map_sum id (\<lambda>h. (columns h, attributes h))
        (HeaderMeta_from_byte_buffer described
           (header_schema_of (bare_header [[1, 0x41], [1, 0x42], [1, 0x43]] [2, 0, 2, 1])) [0])
       = Inr ([sample_column (Some [65]), sample_column (Some [66]), sample_column (Some [67])],
              [2, 0, 2, 1])"
proof -
  let ?h = "bare_header [[1, 0x41], [1, 0x42], [1, 0x43]] [2, 0, 2, 1]"
  have root: "GetRootAsHeader (header_schema_of ?h) [0] = Inr ?h"
    by (simp add: GetRootAsHeader_def header_schema_of_def)
  obtain h where result:
    "HeaderMeta_from_byte_buffer described (header_schema_of ?h) [0] = Inr h"
    by (simp add: HeaderMeta_from_byte_buffer_def GetRootAsHeader_def header_schema_of_def
        bare_header_def described_ascii decode_text_def)
  from order_preserved [OF root result]
  have "map Inr (columns h) = map (from_byte_buffer described) (Columns ?h)"
    and "attributes h = Attributes ?h"
    by simp_all
  then have "columns h = [sample_column (Some [65]), sample_column (Some [66]), sample_column (Some [67])]"
    and "attributes h = [2, 0, 2, 1]"
    by (auto simp: bare_header_def described_ascii map_eq_Cons_conv)
  with root result show ?thesis
    by simp
qed

section \<open>The root read\<close>

text \<open>
  The root is read by the first statement of \<^verbatim>\<open>from_byte_buffer\<close>, outside any handler:
  when the root read fails, its error is the result of the call.
\<close>

lemma root_failure_propagates:
  "GetRootAsColumnMeta S bb = Inl e \<Longrightarrow> from_byte_buffer S bb = Inl e"
  by (simp add: from_byte_buffer_def)

end
